theory Spec2Isabelle
  imports Main
begin

section \<open>HTTP results, request fields and Python exceptions\<close>

text \<open>
  The three services (\<^verbatim>\<open>quotes_api/app.py\<close>, \<^verbatim>\<open>flask_app/app.py\<close>,
  \<^verbatim>\<open>fastapi_app/app.py\<close>) are request handlers over an SQLite file. A handler is
  modelled as a function from its arguments and the store to a response and the new store.
  A response is either a success with its status code and body, or a failure with its
  status code and detail; the detail of a 500 that a handler raises is \<^verbatim>\<open>str(e)\<close> of the
  exception it caught.
\<close>

datatype constraint = NOT_NULL | UNIQUE | FOREIGN_KEY

datatype py_exception = IntegrityError constraint | OperationalError | OverflowError | TypeError

datatype detail = Message string | Str py_exception

datatype 'a response = Success nat 'a | Failure nat detail

text \<open>
  A key of a JSON body is absent, present with \<^verbatim>\<open>null\<close>, or present with a value of
  the type the handlers expect. For a Pydantic model read with
  \<^verbatim>\<open>dict(exclude_unset=True)\<close> the first case is the unset field.
\<close>

datatype 'a field = Absent | Null | Val 'a

fun get :: "'a field \<Rightarrow> 'a option" where
  "get Absent = None"
| "get Null = None"
| "get (Val v) = Some v"

fun is_set :: "'a field \<Rightarrow> bool" where
  "is_set Absent = False"
| "is_set Null = True"
| "is_set (Val v) = True"

text \<open>
  Python integers are unbounded, SQLite integers are signed 64-bit: \<^verbatim>\<open>cursor.execute\<close>
  raises \<^verbatim>\<open>OverflowError\<close> when a parameter does not fit. A path parameter declared
  \<^verbatim>\<open>int\<close> and a JSON number can be any integer.
\<close>

definition sqlite_int :: "int \<Rightarrow> bool" where
  "sqlite_int i = (- 9223372036854775808 \<le> i \<and> i \<le> 9223372036854775807)"

fun bindable :: "int option \<Rightarrow> bool" where
  "bindable None = True"
| "bindable (Some i) = sqlite_int i"

section \<open>The store: one SQLite file, connections, transactions\<close>

text \<open>
  \<open>committed\<close> is the content of the database file, \<open>open_conns\<close> the number of
  connections opened and not closed, \<open>commits\<close> the number of \<^verbatim>\<open>conn.commit()\<close>
  calls so far, \<open>clock\<close> the value of \<^verbatim>\<open>CURRENT_TIMESTAMP\<close>. A connection works on its
  own copy of the tables until it commits; \<open>foreign_keys\<close> is the connection's
  \<^verbatim>\<open>PRAGMA foreign_keys\<close> setting.
\<close>

record 'db store =
  committed :: 'db
  open_conns :: nat
  commits :: nat
  clock :: string

record 'db connection =
  working :: 'db
  foreign_keys :: bool

text \<open>
  SQLite enforces foreign keys only on a connection that has run
  \<^verbatim>\<open>PRAGMA foreign_keys = ON\<close>; \<^verbatim>\<open>sqlite3.connect\<close> leaves the setting at the library
  default, which is off.
\<close>

definition SQLITE_DEFAULT_FOREIGN_KEYS :: bool where
  "SQLITE_DEFAULT_FOREIGN_KEYS = False"

definition sqlite3_connect :: "'db store \<Rightarrow> 'db connection \<times> 'db store" where
  "sqlite3_connect s =
     (\<lparr>working = committed s, foreign_keys = SQLITE_DEFAULT_FOREIGN_KEYS\<rparr>,
      s\<lparr>open_conns := open_conns s + 1\<rparr>)"

text \<open>
  \<^verbatim>\<open>get_db_connection\<close> is the same in the three files: connect and set the row factory
  (which only changes how a row is read). It runs no pragma.
\<close>

definition get_db_connection :: "'db store \<Rightarrow> 'db connection \<times> 'db store" where
  "get_db_connection s = sqlite3_connect s"

definition commit :: "'db connection \<Rightarrow> 'db store \<Rightarrow> 'db store" where
  "commit conn s = s\<lparr>committed := working conn, commits := commits s + 1\<rparr>"

definition close :: "'db store \<Rightarrow> 'db store" where
  "close s = s\<lparr>open_conns := open_conns s - 1\<rparr>"

text \<open>
  \<^verbatim>\<open>INTEGER PRIMARY KEY AUTOINCREMENT\<close>: the new rowid is one more than the largest
  rowid the table has ever held, which SQLite keeps in \<^verbatim>\<open>sqlite_sequence\<close>.
\<close>

definition next_rowid :: "int \<Rightarrow> int list \<Rightarrow> int" where
  "next_rowid seq ids = fold max ids seq + 1"

text \<open>
  When the largest rowid has been used, that number does not exist and the insert fails
  with \<^verbatim>\<open>database or disk is full\<close>, before any constraint of the row is looked at.
\<close>

definition autoincrement :: "int \<Rightarrow> int list \<Rightarrow> py_exception + int" where
  "autoincrement seq ids =
     (let i = next_rowid seq ids in if sqlite_int i then Inr i else Inl OperationalError)"

section \<open>The quotes service (quotes\_api/app.py)\<close>

subsection \<open>Tables\<close>

record quote_row =
  q_id :: int
  q_text :: string
  q_author :: string
  q_source :: "string option"
  q_category :: "string option"
  q_created_at :: string

record favorite_row =
  f_id :: int
  f_quote_id :: int
  f_user_id :: string
  f_created_at :: string

record quotes_db =
  quotes :: "quote_row list"
  quotes_seq :: int
  favorites :: "favorite_row list"
  favorites_seq :: int

definition empty_quotes_db :: quotes_db where
  "empty_quotes_db = \<lparr>quotes = [], quotes_seq = 0, favorites = [], favorites_seq = 0\<rparr>"

subsection \<open>Pydantic models\<close>

record QuoteCreate =
  text_in :: string
  author_in :: string
  source_in :: "string option"
  category_in :: "string option"

record QuoteUpdate =
  text_up :: "string field"
  author_up :: "string field"
  source_up :: "string field"
  category_up :: "string field"

text \<open>The response model \<^verbatim>\<open>Quote\<close>: the row and the transient \<^verbatim>\<open>is_favorite\<close>.\<close>

record Quote =
  row :: quote_row
  is_favorite :: bool

text \<open>
  A handler declared with \<^verbatim>\<open>response_model=Quote\<close> has its return value checked against
  the model after it has returned: \<^verbatim>\<open>text\<close> has \<^verbatim>\<open>min_length=1\<close>, the other fields
  accept what the table holds. A value that fails is answered with 500 by the framework.
  \<^verbatim>\<open>QuoteUpdate\<close> has no such bound, so a stored text can be empty.
\<close>

definition Quote_model :: "Quote \<Rightarrow> bool" where
  "Quote_model q = (q_text (row q) \<noteq> [])"

definition respond_Quote :: "nat \<Rightarrow> Quote \<Rightarrow> Quote response" where
  "respond_Quote status q =
     (if Quote_model q then Success status q
      else Failure 500 (Message ''Internal Server Error''))"

definition respond_Quotes :: "nat \<Rightarrow> Quote list \<Rightarrow> Quote list response" where
  "respond_Quotes status qs =
     (if list_all Quote_model qs then Success status qs
      else Failure 500 (Message ''Internal Server Error''))"

subsection \<open>Statements\<close>

text \<open>
  The two handlers that create quotes take payloads that have passed the request model
  \<^verbatim>\<open>QuoteCreate\<close>; the quotes table is taken to have rowids left for them.
\<close>

definition insert_quote :: "string \<Rightarrow> QuoteCreate \<Rightarrow> quotes_db \<Rightarrow> int \<times> quotes_db" where
  "insert_quote now quote db =
     (let i = next_rowid (quotes_seq db) (map q_id (quotes db))
      in (i, db\<lparr>quotes := quotes db @
                   [\<lparr>q_id = i, q_text = text_in quote, q_author = author_in quote,
                     q_source = source_in quote, q_category = category_in quote,
                     q_created_at = now\<rparr>],
                 quotes_seq := i\<rparr>))"

definition select_quote :: "int \<Rightarrow> quotes_db \<Rightarrow> quote_row option" where
  "select_quote quote_id db = find (\<lambda>r. q_id r = quote_id) (quotes db)"

definition quote_exists :: "int \<Rightarrow> quotes_db \<Rightarrow> bool" where
  "quote_exists quote_id db = (quote_id \<in> set (map q_id (quotes db)))"

definition set_quote_fields :: "QuoteUpdate \<Rightarrow> quote_row \<Rightarrow> quote_row" where
  "set_quote_fields u r =
     r\<lparr>q_text := (case text_up u of Val t \<Rightarrow> t | _ \<Rightarrow> q_text r),
       q_author := (case author_up u of Val a \<Rightarrow> a | _ \<Rightarrow> q_author r),
       q_source := (case source_up u of Absent \<Rightarrow> q_source r | f \<Rightarrow> get f),
       q_category := (case category_up u of Absent \<Rightarrow> q_category r | f \<Rightarrow> get f)\<rparr>"

text \<open>\<^verbatim>\<open>text\<close> and \<^verbatim>\<open>author\<close> are \<^verbatim>\<open>NOT NULL\<close>: setting one to null on a row fails.\<close>

definition update_quote_stmt :: "QuoteUpdate \<Rightarrow> int \<Rightarrow> quotes_db \<Rightarrow> py_exception + quotes_db" where
  "update_quote_stmt u quote_id db =
     (if quote_exists quote_id db \<and> (text_up u = Null \<or> author_up u = Null)
      then Inl (IntegrityError NOT_NULL)
      else Inr (db\<lparr>quotes := map (\<lambda>r. if q_id r = quote_id then set_quote_fields u r else r)
                                   (quotes db)\<rparr>))"

text \<open>
  \<^verbatim>\<open>DELETE FROM quotes\<close>: the \<^verbatim>\<open>ON DELETE CASCADE\<close> of \<^verbatim>\<open>favorites.quote_id\<close> acts
  only on a connection that enforces foreign keys.
\<close>

definition delete_quote_stmt :: "bool \<Rightarrow> int \<Rightarrow> quotes_db \<Rightarrow> quotes_db" where
  "delete_quote_stmt fk quote_id db =
     db\<lparr>quotes := filter (\<lambda>r. q_id r \<noteq> quote_id) (quotes db),
        favorites := (if fk then filter (\<lambda>f. f_quote_id f \<noteq> quote_id) (favorites db)
                      else favorites db)\<rparr>"

definition is_pair :: "int \<Rightarrow> string \<Rightarrow> favorite_row \<Rightarrow> bool" where
  "is_pair quote_id user_id f = (f_quote_id f = quote_id \<and> f_user_id f = user_id)"

text \<open>
  \<^verbatim>\<open>INSERT INTO favorites\<close>: the rowid is assigned first, then
  \<^verbatim>\<open>UNIQUE(quote_id, user_id)\<close> is checked, then the foreign key if it is enforced.
\<close>

definition insert_favorite ::
  "bool \<Rightarrow> string \<Rightarrow> int \<Rightarrow> string \<Rightarrow> quotes_db \<Rightarrow> py_exception + quotes_db" where
  "insert_favorite fk now quote_id user_id db =
     (case autoincrement (favorites_seq db) (map f_id (favorites db)) of
        Inl e \<Rightarrow> Inl e
      | Inr i \<Rightarrow>
          if list_ex (is_pair quote_id user_id) (favorites db) then Inl (IntegrityError UNIQUE)
          else if fk \<and> \<not> quote_exists quote_id db then Inl (IntegrityError FOREIGN_KEY)
          else Inr (db\<lparr>favorites := favorites db @
                          [\<lparr>f_id = i, f_quote_id = quote_id, f_user_id = user_id,
                            f_created_at = now\<rparr>],
                        favorites_seq := i\<rparr>))"

text \<open>\<^verbatim>\<open>DELETE FROM favorites\<close> returns \<^verbatim>\<open>cursor.rowcount\<close> with the new tables.\<close>

definition delete_favorite_stmt :: "int \<Rightarrow> string \<Rightarrow> quotes_db \<Rightarrow> nat \<times> quotes_db" where
  "delete_favorite_stmt quote_id user_id db =
     (length (filter (is_pair quote_id user_id) (favorites db)),
      db\<lparr>favorites := filter (\<lambda>f. \<not> is_pair quote_id user_id f) (favorites db)\<rparr>)"

definition favorite_quote_ids :: "string \<Rightarrow> quotes_db \<Rightarrow> int set" where
  "favorite_quote_ids user_id db =
     set (map f_quote_id (filter (\<lambda>f. f_user_id f = user_id) (favorites db)))"

text \<open>Python's \<^verbatim>\<open>if user_id:\<close> holds for a string that is given and not empty.\<close>

fun truthy :: "string option \<Rightarrow> bool" where
  "truthy None = False"
| "truthy (Some u) = (u \<noteq> [])"

definition mark :: "string option \<Rightarrow> quotes_db \<Rightarrow> quote_row \<Rightarrow> Quote" where
  "mark user_id db r =
     \<lparr>row = r,
      is_favorite = (if truthy user_id then q_id r \<in> favorite_quote_ids (the user_id) db
                     else False)\<rparr>"

definition is_favorite_of :: "string option \<Rightarrow> int \<Rightarrow> quotes_db \<Rightarrow> bool" where
  "is_favorite_of user_id quote_id db =
     (if truthy user_id then list_ex (is_pair quote_id (the user_id)) (favorites db)
      else False)"

subsection \<open>Handlers\<close>

text \<open>
  Every handler runs in \<^verbatim>\<open>try\<close>: an \<^verbatim>\<open>HTTPException\<close> it raised itself passes, any
  other exception becomes a 500 with \<^verbatim>\<open>str(e)\<close>. The \<^verbatim>\<open>except\<close> clauses do not close
  the connection. The first statement that binds the path parameter raises
  \<^verbatim>\<open>OverflowError\<close> for an identifier that is not a 64-bit integer.
\<close>

definition create_quote :: "QuoteCreate \<Rightarrow> quotes_db store \<Rightarrow> Quote response \<times> quotes_db store" where
  "create_quote quote s0 =
     (let (conn, s) = get_db_connection s0;
          (quote_id, db) = insert_quote (clock s) quote (working conn);
          conn = conn\<lparr>working := db\<rparr>;
          s = commit conn s
      in case select_quote quote_id (working conn) of
           None \<Rightarrow> (Failure 500 (Str TypeError), s)
         | Some new_quote \<Rightarrow> (Success 201 \<lparr>row = new_quote, is_favorite = False\<rparr>, close s))"



definition get_all_quotes ::
  "string option \<Rightarrow> quotes_db store \<Rightarrow> Quote list response \<times> quotes_db store" where
  "get_all_quotes user_id s0 =
     (let (conn, s) = get_db_connection s0;
          qs = map (mark user_id (working conn)) (quotes (working conn))
      in (respond_Quotes 200 qs, close s))"

definition get_quote ::
  "int \<Rightarrow> string option \<Rightarrow> quotes_db store \<Rightarrow> Quote response \<times> quotes_db store" where
  "get_quote quote_id user_id s0 =
     (let (conn, s) = get_db_connection s0
      in if \<not> sqlite_int quote_id then (Failure 500 (Str OverflowError), s)
         else case select_quote quote_id (working conn) of
                None \<Rightarrow> (Failure 404 (Message ''Quote not found''), close s)
              | Some quote \<Rightarrow>
                  (respond_Quote 200
                     \<lparr>row = quote,
                      is_favorite = is_favorite_of user_id quote_id (working conn)\<rparr>,
                   close s))"

definition update_quote ::
  "int \<Rightarrow> QuoteUpdate \<Rightarrow> string option \<Rightarrow> quotes_db store \<Rightarrow> Quote response \<times> quotes_db store" where
  "update_quote quote_id quote_update user_id s0 =
     (if \<not> (is_set (text_up quote_update) \<or> is_set (author_up quote_update) \<or>
             is_set (source_up quote_update) \<or> is_set (category_up quote_update))
      then (Failure 400 (Message ''No valid fields to update''), s0)
      else
        let (conn, s) = get_db_connection s0
        in if \<not> sqlite_int quote_id then (Failure 500 (Str OverflowError), s)
           else if \<not> quote_exists quote_id (working conn)
           then (Failure 404 (Message ''Quote not found''), close s)
           else case update_quote_stmt quote_update quote_id (working conn) of
                  Inl e \<Rightarrow> (Failure 500 (Str e), s)
                | Inr db \<Rightarrow>
                    (let conn = conn\<lparr>working := db\<rparr>;
                         s = commit conn s
                     in case select_quote quote_id (working conn) of
                          None \<Rightarrow> (Failure 500 (Str TypeError), s)
                        | Some updated_quote \<Rightarrow>
                            (respond_Quote 200
                               \<lparr>row = updated_quote,
                                is_favorite = is_favorite_of user_id quote_id (working conn)\<rparr>,
                             close s)))"

definition delete_quote :: "int \<Rightarrow> quotes_db store \<Rightarrow> unit response \<times> quotes_db store" where
  "delete_quote quote_id s0 =
     (let (conn, s) = get_db_connection s0
      in if \<not> sqlite_int quote_id then (Failure 500 (Str OverflowError), s)
         else if \<not> quote_exists quote_id (working conn)
         then (Failure 404 (Message ''Quote not found''), close s)
         else let conn = conn\<lparr>working :=
                           delete_quote_stmt (foreign_keys conn) quote_id (working conn)\<rparr>;
                  s = commit conn s
              in (Success 204 (), close s))"

text \<open>The body of the two favorite endpoints is \<^verbatim>\<open>{"success": b}\<close>, modelled by \<open>b\<close>.\<close>

definition add_favorite :: "int \<Rightarrow> string \<Rightarrow> quotes_db store \<Rightarrow> bool response \<times> quotes_db store" where
  "add_favorite quote_id user_id s0 =
     (let (conn, s) = get_db_connection s0
      in if \<not> sqlite_int quote_id then (Failure 500 (Str OverflowError), s)
         else if \<not> quote_exists quote_id (working conn)
         then (Failure 404 (Message ''Quote not found''), close s)
         else case insert_favorite (foreign_keys conn) (clock s) quote_id user_id (working conn) of
                Inl (IntegrityError c) \<Rightarrow> (Success 200 True, close s)
              | Inl e \<Rightarrow> (Failure 500 (Str e), s)
              | Inr db \<Rightarrow>
                  (let conn = conn\<lparr>working := db\<rparr>;
                       s = commit conn s
                   in (Success 200 True, close s)))"

definition remove_favorite :: "int \<Rightarrow> string \<Rightarrow> quotes_db store \<Rightarrow> bool response \<times> quotes_db store" where
  "remove_favorite quote_id user_id s0 =
     (let (conn, s) = get_db_connection s0
      in if \<not> sqlite_int quote_id then (Failure 500 (Str OverflowError), s)
         else let (rowcount, db) = delete_favorite_stmt quote_id user_id (working conn);
                  conn = conn\<lparr>working := db\<rparr>;
                  s = commit conn s;
                  success = (rowcount > 0)
              in (Success 200 success, close s))"

text \<open>
  \<^verbatim>\<open>SELECT q.* FROM quotes q JOIN favorites f ON q.id = f.quote_id WHERE f.user_id = ?\<close>:
  one result row for each pair of a quote and a favorite of the user that references it.
\<close>

definition get_favorite_quotes ::
  "string \<Rightarrow> quotes_db store \<Rightarrow> Quote list response \<times> quotes_db store" where
  "get_favorite_quotes user_id s0 =
     (let (conn, s) = get_db_connection s0;
          joined = concat (map (\<lambda>q. map (\<lambda>f. q)
                      (filter (\<lambda>f. q_id q = f_quote_id f \<and> f_user_id f = user_id)
                              (favorites (working conn))))
                    (quotes (working conn)));
          qs = map (\<lambda>q. \<lparr>row = q, is_favorite = True\<rparr>) joined
      in (respond_Quotes 200 qs, close s))"

section \<open>The users services (flask\_app/app.py and fastapi\_app/app.py)\<close>

subsection \<open>The users table\<close>

record user_row =
  u_id :: int
  u_username :: string
  u_email :: string
  u_age :: "int option"
  u_created_at :: string

record users_db =
  users :: "user_row list"
  users_seq :: int

definition empty_users_db :: users_db where
  "empty_users_db = \<lparr>users = [], users_seq = 0\<rparr>"

text \<open>
  \<^verbatim>\<open>INSERT INTO users (username, email, age)\<close>: the rowid is assigned first; then
  \<^verbatim>\<open>username\<close> and \<^verbatim>\<open>email\<close> are \<^verbatim>\<open>NOT NULL\<close> and \<^verbatim>\<open>username\<close> is \<^verbatim>\<open>UNIQUE\<close>.
  The result carries \<^verbatim>\<open>cursor.lastrowid\<close>.
\<close>

definition insert_user ::
  "string \<Rightarrow> string option \<Rightarrow> string option \<Rightarrow> int option \<Rightarrow> users_db
     \<Rightarrow> py_exception + (int \<times> users_db)" where
  "insert_user now username email age db =
     (case autoincrement (users_seq db) (map u_id (users db)) of
        Inl e \<Rightarrow> Inl e
      | Inr i \<Rightarrow>
          (case (username, email) of
             (Some u, Some e) \<Rightarrow>
               if u \<in> set (map u_username (users db)) then Inl (IntegrityError UNIQUE)
               else Inr (i, db\<lparr>users := users db @
                                  [\<lparr>u_id = i, u_username = u, u_email = e, u_age = age,
                                    u_created_at = now\<rparr>],
                                users_seq := i\<rparr>)
           | _ \<Rightarrow> Inl (IntegrityError NOT_NULL)))"

definition select_user :: "int \<Rightarrow> users_db \<Rightarrow> user_row option" where
  "select_user user_id db = find (\<lambda>r. u_id r = user_id) (users db)"

definition user_exists :: "int \<Rightarrow> users_db \<Rightarrow> bool" where
  "user_exists user_id db = (user_id \<in> set (map u_id (users db)))"

definition set_user_fields :: "string field \<Rightarrow> int field \<Rightarrow> user_row \<Rightarrow> user_row" where
  "set_user_fields email age r =
     r\<lparr>u_email := (case email of Val e \<Rightarrow> e | _ \<Rightarrow> u_email r),
       u_age := (case age of Absent \<Rightarrow> u_age r | f \<Rightarrow> get f)\<rparr>"

text \<open>
  \<^verbatim>\<open>UPDATE users SET ... WHERE id = ?\<close> with the assignments for the fields that are
  set: an age that does not fit 64 bits cannot be bound; \<^verbatim>\<open>email = NULL\<close> on a row
  violates \<^verbatim>\<open>NOT NULL\<close>.
\<close>

definition update_user_stmt ::
  "string field \<Rightarrow> int field \<Rightarrow> int \<Rightarrow> users_db \<Rightarrow> py_exception + users_db" where
  "update_user_stmt email age user_id db =
     (if \<not> bindable (get age) then Inl OverflowError
      else if user_exists user_id db \<and> email = Null then Inl (IntegrityError NOT_NULL)
      else Inr (db\<lparr>users := map (\<lambda>r. if u_id r = user_id then set_user_fields email age r else r)
                                  (users db)\<rparr>))"

definition delete_user_stmt :: "int \<Rightarrow> users_db \<Rightarrow> users_db" where
  "delete_user_stmt user_id db = db\<lparr>users := filter (\<lambda>r. u_id r \<noteq> user_id) (users db)\<rparr>"

text \<open>The f-string \<^verbatim>\<open>f"Username '{name}' already exists"\<close>; Python prints null as None.\<close>

definition already_exists :: "string option \<Rightarrow> string" where
  "already_exists name =
     ''Username '' @ [CHR 0x27] @ (case name of None \<Rightarrow> ''None'' | Some u \<Rightarrow> u) @ [CHR 0x27]
       @ '' already exists''"

subsection \<open>Flask\<close>

text \<open>
  \<^verbatim>\<open>request.get_json()\<close> gives a dict: the three keys the handlers read, and the names
  of whatever other keys the body has. The handlers check nothing but the presence of keys.
\<close>

record user_json =
  username_key :: "string field"
  email_key :: "string field"
  age_key :: "int field"
  other_keys :: "string list"

datatype flask_body =
    Created_body string int
  | Users_body "user_row list"
  | User_body user_row
  | Message_body string

definition flask_create_user ::
  "user_json \<Rightarrow> users_db store \<Rightarrow> flask_body response \<times> users_db store" where
  "flask_create_user data s0 =
     (if \<not> (is_set (username_key data) \<and> is_set (email_key data))
      then (Failure 400 (Message ''Username and email are required''), s0)
      else
        let (conn, s) = get_db_connection s0
        in if \<not> bindable (get (age_key data)) then (Failure 500 (Str OverflowError), s)
           else case insert_user (clock s) (get (username_key data)) (get (email_key data))
                  (get (age_key data)) (working conn) of
             Inl (IntegrityError c) \<Rightarrow>
               (Failure 409 (Message (already_exists (get (username_key data)))), s)
           | Inl e \<Rightarrow> (Failure 500 (Str e), s)
           | Inr (user_id, db) \<Rightarrow>
               (let conn = conn\<lparr>working := db\<rparr>;
                    s = commit conn s
                in (Success 201 (Created_body ''User created successfully'' user_id), close s)))"

definition flask_get_all_users :: "users_db store \<Rightarrow> flask_body response \<times> users_db store" where
  "flask_get_all_users s0 =
     (let (conn, s) = get_db_connection s0
      in (Success 200 (Users_body (users (working conn))), close s))"

definition flask_get_user :: "int \<Rightarrow> users_db store \<Rightarrow> flask_body response \<times> users_db store" where
  "flask_get_user user_id s0 =
     (let (conn, s) = get_db_connection s0
      in if \<not> sqlite_int user_id then (Failure 500 (Str OverflowError), s)
         else let user = select_user user_id (working conn);
                  s = close s
              in case user of
                   Some r \<Rightarrow> (Success 200 (User_body r), s)
                 | None \<Rightarrow> (Failure 404 (Message ''User not found''), s))"

definition flask_update_user ::
  "int \<Rightarrow> user_json \<Rightarrow> users_db store \<Rightarrow> flask_body response \<times> users_db store" where
  "flask_update_user user_id data s0 =
     (if \<not> (is_set (username_key data) \<or> is_set (email_key data) \<or> is_set (age_key data)
             \<or> other_keys data \<noteq> [])
      then (Failure 400 (Message ''No data provided for update''), s0)
      else if \<not> (is_set (email_key data) \<or> is_set (age_key data))
      then (Failure 400 (Message ''No valid fields to update''), s0)
      else
        let (conn, s) = get_db_connection s0
        in if \<not> sqlite_int user_id then (Failure 500 (Str OverflowError), s)
           else if \<not> user_exists user_id (working conn)
           then (Failure 404 (Message ''User not found''), close s)
           else case update_user_stmt (email_key data) (age_key data) user_id (working conn) of
                  Inl e \<Rightarrow> (Failure 500 (Str e), s)
                | Inr db \<Rightarrow>
                    (let conn = conn\<lparr>working := db\<rparr>;
                         s = commit conn s
                     in (Success 200 (Message_body ''User updated successfully''), close s)))"

definition flask_delete_user :: "int \<Rightarrow> users_db store \<Rightarrow> flask_body response \<times> users_db store" where
  "flask_delete_user user_id s0 =
     (let (conn, s) = get_db_connection s0
      in if \<not> sqlite_int user_id then (Failure 500 (Str OverflowError), s)
         else if \<not> user_exists user_id (working conn)
         then (Failure 404 (Message ''User not found''), close s)
         else let conn = conn\<lparr>working := delete_user_stmt user_id (working conn)\<rparr>;
                  s = commit conn s
              in (Success 200 (Message_body ''User deleted successfully''), close s))"

subsection \<open>FastAPI\<close>

record UserCreate =
  username :: string
  email :: string
  age :: "int option"

record UserUpdate =
  email_up :: "string field"
  age_up :: "int field"

datatype fastapi_body =
    User_out user_row
  | Users_out "user_row list"
  | No_content

text \<open>
  The framework checks the body against the request model before the handler runs, and
  answers 422 when it fails: for \<^verbatim>\<open>UserCreate\<close>, \<^verbatim>\<open>username\<close> a string of 3 to 50
  characters, \<^verbatim>\<open>email\<close> an \<^verbatim>\<open>EmailStr\<close>, \<^verbatim>\<open>age\<close> absent, null or between 0 and 120;
  for \<^verbatim>\<open>UserUpdate\<close>, \<^verbatim>\<open>email\<close> and \<^verbatim>\<open>age\<close> absent, null or as before. The check of an
  address belongs to a library that is not part of the repository: it is the parameter
  \<open>email_str\<close>, which gives the address as the library accepts and normalises it, or
  nothing. The handler sees the normalised address.
\<close>

definition age_ok :: "int option \<Rightarrow> bool" where
  "age_ok a = (case a of None \<Rightarrow> True | Some n \<Rightarrow> 0 \<le> n \<and> n \<le> 120)"

definition UserCreate_parse :: "(string \<Rightarrow> string option) \<Rightarrow> user_json \<Rightarrow> UserCreate option" where
  "UserCreate_parse email_str body =
     (case (username_key body, email_key body) of
        (Val u, Val e) \<Rightarrow>
          if 3 \<le> length u \<and> length u \<le> 50 \<and> age_ok (get (age_key body)) then
            (case email_str e of
               None \<Rightarrow> None
             | Some e' \<Rightarrow> Some \<lparr>username = u, email = e', age = get (age_key body)\<rparr>)
          else None
      | _ \<Rightarrow> None)"

definition UserUpdate_parse :: "(string \<Rightarrow> string option) \<Rightarrow> UserUpdate \<Rightarrow> UserUpdate option" where
  "UserUpdate_parse email_str body =
     (if age_ok (get (age_up body)) then
        (case email_up body of
           Val e \<Rightarrow>
             (case email_str e of
                None \<Rightarrow> None
              | Some e' \<Rightarrow> Some (body\<lparr>email_up := Val e'\<rparr>))
         | _ \<Rightarrow> Some body)
      else None)"

text \<open>
  The users handlers that return rows are declared with \<^verbatim>\<open>response_model=User\<close> (or a
  list of it): the value returned is checked against \<^verbatim>\<open>User\<close>, which has the bounds of
  \<^verbatim>\<open>UserBase\<close>, and a value that fails is answered with 500. The table is the one the
  Flask service writes without these checks.
\<close>

definition User_model :: "(string \<Rightarrow> string option) \<Rightarrow> user_row \<Rightarrow> user_row option" where
  "User_model email_str r =
     (if 3 \<le> length (u_username r) \<and> length (u_username r) \<le> 50 \<and> age_ok (u_age r) then
        (case email_str (u_email r) of
           None \<Rightarrow> None
         | Some e' \<Rightarrow> Some (r\<lparr>u_email := e'\<rparr>))
      else None)"

fun User_models :: "(string \<Rightarrow> string option) \<Rightarrow> user_row list \<Rightarrow> user_row list option" where
  "User_models email_str [] = Some []"
| "User_models email_str (r # rs) =
     (case User_model email_str r of
        None \<Rightarrow> None
      | Some r' \<Rightarrow>
          (case User_models email_str rs of
             None \<Rightarrow> None
           | Some rs' \<Rightarrow> Some (r' # rs')))"

definition respond_User :: "(string \<Rightarrow> string option) \<Rightarrow> nat \<Rightarrow> user_row \<Rightarrow> fastapi_body response" where
  "respond_User email_str status r =
     (case User_model email_str r of
        None \<Rightarrow> Failure 500 (Message ''Internal Server Error'')
      | Some r' \<Rightarrow> Success status (User_out r'))"

definition respond_Users ::
  "(string \<Rightarrow> string option) \<Rightarrow> nat \<Rightarrow> user_row list \<Rightarrow> fastapi_body response" where
  "respond_Users email_str status rs =
     (case User_models email_str rs of
        None \<Rightarrow> Failure 500 (Message ''Internal Server Error'')
      | Some rs' \<Rightarrow> Success status (Users_out rs'))"

definition fastapi_create_user ::
  "(string \<Rightarrow> string option) \<Rightarrow> user_json \<Rightarrow> users_db store
     \<Rightarrow> fastapi_body response \<times> users_db store" where
  "fastapi_create_user email_str body s0 =
     (case UserCreate_parse email_str body of
        None \<Rightarrow> (Failure 422 (Message ''Unprocessable Entity''), s0)
      | Some user \<Rightarrow>
          (let (conn, s) = get_db_connection s0
           in (case insert_user (clock s) (Some (username user)) (Some (email user)) (age user)
                      (working conn) of
                 Inl (IntegrityError c) \<Rightarrow>
                   (Failure 409 (Message (already_exists (Some (username user)))), s)
               | Inl e \<Rightarrow> (Failure 500 (Str e), s)
               | Inr (user_id, db) \<Rightarrow>
                   (let conn = conn\<lparr>working := db\<rparr>;
                        s = commit conn s
                    in (case select_user user_id (working conn) of
                          None \<Rightarrow> (Failure 500 (Str TypeError), s)
                        | Some new_user \<Rightarrow>
                            (respond_User email_str 201 new_user, close s))))))"

definition fastapi_get_all_users ::
  "(string \<Rightarrow> string option) \<Rightarrow> users_db store \<Rightarrow> fastapi_body response \<times> users_db store" where
  "fastapi_get_all_users email_str s0 =
     (let (conn, s) = get_db_connection s0
      in (respond_Users email_str 200 (users (working conn)), close s))"

definition fastapi_get_user ::
  "(string \<Rightarrow> string option) \<Rightarrow> int \<Rightarrow> users_db store
     \<Rightarrow> fastapi_body response \<times> users_db store" where
  "fastapi_get_user email_str user_id s0 =
     (let (conn, s) = get_db_connection s0
      in if \<not> sqlite_int user_id then (Failure 500 (Str OverflowError), s)
         else let user = select_user user_id (working conn);
                  s = close s
              in case user of
                   None \<Rightarrow> (Failure 404 (Message ''User not found''), s)
                 | Some r \<Rightarrow> (respond_User email_str 200 r, s))"

definition fastapi_update_user ::
  "(string \<Rightarrow> string option) \<Rightarrow> int \<Rightarrow> UserUpdate \<Rightarrow> users_db store
     \<Rightarrow> fastapi_body response \<times> users_db store" where
  "fastapi_update_user email_str user_id body s0 =
     (case UserUpdate_parse email_str body of
        None \<Rightarrow> (Failure 422 (Message ''Unprocessable Entity''), s0)
      | Some user_update \<Rightarrow>
          (if \<not> (is_set (email_up user_update) \<or> is_set (age_up user_update))
           then (Failure 400 (Message ''No valid fields to update''), s0)
           else
             (let (conn, s) = get_db_connection s0
              in if \<not> sqlite_int user_id then (Failure 500 (Str OverflowError), s)
                 else if \<not> user_exists user_id (working conn)
                 then (Failure 404 (Message ''User not found''), close s)
                 else (case update_user_stmt (email_up user_update) (age_up user_update)
                              user_id (working conn) of
                         Inl e \<Rightarrow> (Failure 500 (Str e), s)
                       | Inr db \<Rightarrow>
                           (let conn = conn\<lparr>working := db\<rparr>;
                                s = commit conn s
                            in (case select_user user_id (working conn) of
                                  None \<Rightarrow> (Failure 500 (Str TypeError), s)
                                | Some updated_user \<Rightarrow>
                                    (respond_User email_str 200 updated_user, close s)))))))"

definition fastapi_delete_user :: "int \<Rightarrow> users_db store \<Rightarrow> fastapi_body response \<times> users_db store" where
  "fastapi_delete_user user_id s0 =
     (let (conn, s) = get_db_connection s0
      in if \<not> sqlite_int user_id then (Failure 500 (Str OverflowError), s)
         else if \<not> user_exists user_id (working conn)
         then (Failure 404 (Message ''User not found''), close s)
         else let conn = conn\<lparr>working := delete_user_stmt user_id (working conn)\<rparr>;
                  s = commit conn s
              in (Success 204 No_content, close s))"

subsection \<open>A service over time\<close>

text \<open>
  The requests of each users service, routed as the decorators of the file say, and the
  service answering a list of requests one after the other.
\<close>

datatype flask_request =
    Flask_POST user_json
  | Flask_GET_all
  | Flask_GET int
  | Flask_PUT int user_json
  | Flask_DELETE int

fun flask_route :: "flask_request \<Rightarrow> users_db store \<Rightarrow> flask_body response \<times> users_db store" where
  "flask_route (Flask_POST data) s = flask_create_user data s"
| "flask_route Flask_GET_all s = flask_get_all_users s"
| "flask_route (Flask_GET user_id) s = flask_get_user user_id s"
| "flask_route (Flask_PUT user_id data) s = flask_update_user user_id data s"
| "flask_route (Flask_DELETE user_id) s = flask_delete_user user_id s"

datatype fastapi_request =
    Fastapi_POST user_json
  | Fastapi_GET_all
  | Fastapi_GET int
  | Fastapi_PUT int UserUpdate
  | Fastapi_DELETE int

fun fastapi_route ::
  "(string \<Rightarrow> string option) \<Rightarrow> fastapi_request \<Rightarrow> users_db store
     \<Rightarrow> fastapi_body response \<times> users_db store" where
  "fastapi_route email_str (Fastapi_POST body) s = fastapi_create_user email_str body s"
| "fastapi_route email_str Fastapi_GET_all s = fastapi_get_all_users email_str s"
| "fastapi_route email_str (Fastapi_GET user_id) s = fastapi_get_user email_str user_id s"
| "fastapi_route email_str (Fastapi_PUT user_id body) s =
     fastapi_update_user email_str user_id body s"
| "fastapi_route email_str (Fastapi_DELETE user_id) s = fastapi_delete_user user_id s"

fun serve :: "('r \<Rightarrow> 's \<Rightarrow> 'a \<times> 's) \<Rightarrow> 'r list \<Rightarrow> 's \<Rightarrow> 'a list \<times> 's" where
  "serve route [] s = ([], s)"
| "serve route (r # rs) s =
     (let (a, s') = route r s; (as, s'') = serve route rs s' in (a # as, s''))"

text \<open>The identifiers a service has handed out: those of its 201 responses.\<close>

fun flask_issued :: "flask_body response list \<Rightarrow> int list" where
  "flask_issued [] = []"
| "flask_issued (Success c (Created_body m i) # as) = i # flask_issued as"
| "flask_issued (a # as) = flask_issued as"

fun fastapi_issued :: "fastapi_body response list \<Rightarrow> int list" where
  "fastapi_issued [] = []"
| "fastapi_issued (Success c (User_out r) # as) =
     (if c = 201 then u_id r # fastapi_issued as else fastapi_issued as)"
| "fastapi_issued (a # as) = fastapi_issued as"

text \<open>
  What the theorems ask of the library that checks addresses: an address it has accepted
  and normalised is accepted again and stays as it is.
\<close>

definition accepts_own_output :: "(string \<Rightarrow> string option) \<Rightarrow> bool" where
  "accepts_own_output email_str = (\<forall>e e'. email_str e = Some e' \<longrightarrow> email_str e' = Some e')"

text \<open>A table has \<open>n\<close> rowids left when the next \<open>n\<close> numbers are 64-bit integers.\<close>

definition rowids_left :: "nat \<Rightarrow> int \<Rightarrow> int list \<Rightarrow> bool" where
  "rowids_left n seq ids =
     (sqlite_int (next_rowid seq ids) \<and> sqlite_int (next_rowid seq ids + int n - 1))"

subsection \<open>Example stores\<close>

definition quote1 :: quote_row where
  "quote1 = \<lparr>q_id = 1, q_text = ''Know thyself'', q_author = ''Socrates'', q_source = None,
             q_category = Some ''Philosophy'', q_created_at = ''2024-01-01 10:00:00''\<rparr>"

definition favorite1 :: favorite_row where
  "favorite1 = \<lparr>f_id = 1, f_quote_id = 1, f_user_id = ''alice'',
                f_created_at = ''2024-01-02 09:00:00''\<rparr>"

definition quotes_store1 :: "quotes_db store" where
  "quotes_store1 =
     \<lparr>committed = \<lparr>quotes = [quote1], quotes_seq = 1, favorites = [favorite1],
                    favorites_seq = 1\<rparr>,
      open_conns = 0, commits = 0, clock = ''2024-01-03 12:00:00''\<rparr>"

text \<open>The same store with the favorites counter at the largest rowid.\<close>

definition quotes_store_full :: "quotes_db store" where
  "quotes_store_full =
     \<lparr>committed = \<lparr>quotes = [quote1], quotes_seq = 1, favorites = [favorite1],
                    favorites_seq = 9223372036854775807\<rparr>,
      open_conns = 0, commits = 0, clock = ''2024-01-03 12:00:00''\<rparr>"

definition user1 :: user_row where
  "user1 = \<lparr>u_id = 1, u_username = ''johndoe'', u_email = ''john@example.com'', u_age = Some 30,
            u_created_at = ''2024-01-01 10:00:00''\<rparr>"

definition users_store1 :: "users_db store" where
  "users_store1 =
     \<lparr>committed = \<lparr>users = [user1], users_seq = 1\<rparr>,
      open_conns = 0, commits = 0, clock = ''2024-01-03 12:00:00''\<rparr>"

text \<open>The same store with the users counter at the largest rowid.\<close>

definition users_store_full :: "users_db store" where
  "users_store_full =
     \<lparr>committed = \<lparr>users = [user1], users_seq = 9223372036854775807\<rparr>,
      open_conns = 0, commits = 0, clock = ''2024-01-03 12:00:00''\<rparr>"

definition users_store0 :: "users_db store" where
  "users_store0 =
     \<lparr>committed = empty_users_db, open_conns = 0, commits = 0, clock = ''2024-01-03 12:00:00''\<rparr>"

definition john_json :: user_json where
  "john_json = \<lparr>username_key = Val ''johndoe'', email_key = Val ''john@example.com'',
                age_key = Val 30, other_keys = []\<rparr>"

definition jane_json :: user_json where
  "jane_json = \<lparr>username_key = Val ''jane'', email_key = Val ''jane@example.com'',
                age_key = Absent, other_keys = []\<rparr>"

definition bob_json :: user_json where
  "bob_json = \<lparr>username_key = Val ''bob'', email_key = Val ''bob@example.com'',
               age_key = Val 150, other_keys = []\<rparr>"

definition new_email_json :: user_json where
  "new_email_json = \<lparr>username_key = Absent, email_key = Val ''new@x.com'', age_key = Absent,
                     other_keys = []\<rparr>"

definition two_quotes :: "QuoteCreate list" where
  "two_quotes =
     [\<lparr>text_in = ''A'', author_in = ''X'', source_in = None, category_in = None\<rparr>,
      \<lparr>text_in = ''B'', author_in = ''Y'', source_in = Some ''S'', category_in = None\<rparr>]"

subsection \<open>The constraint on favorites\<close>

text \<open>\<^verbatim>\<open>UNIQUE(quote_id, user_id)\<close>: no two favorite rows have the same pair.\<close>

definition favorites_unique :: "quotes_db \<Rightarrow> bool" where
  "favorites_unique db = distinct (map (\<lambda>f. (f_quote_id f, f_user_id f)) (favorites db))"

subsection \<open>The rows a batch is expected to create\<close>


section \<open>Facts about the store\<close>

lemmas conn_defs = get_db_connection_def sqlite3_connect_def commit_def close_def
  SQLITE_DEFAULT_FOREIGN_KEYS_def

lemmas example_defs = quotes_store1_def quotes_store_full_def quote1_def favorite1_def
  users_store1_def users_store_full_def user1_def empty_users_db_def empty_quotes_db_def
  users_store0_def john_json_def jane_json_def bob_json_def new_email_json_def two_quotes_def

lemmas users_handler_defs = flask_create_user_def flask_delete_user_def flask_update_user_def
  fastapi_create_user_def fastapi_update_user_def insert_user_def select_user_def
  user_exists_def update_user_stmt_def delete_user_stmt_def set_user_fields_def next_rowid_def
  autoincrement_def sqlite_int_def UserCreate_parse_def UserUpdate_parse_def age_ok_def
  User_model_def respond_User_def

subsection \<open>Fresh row identifiers\<close>

lemma fold_max_lower: "(a::int) \<le> fold max ids a"
proof (induction ids arbitrary: a)
  case Nil
  show ?case by simp
next
  case (Cons x xs)
  have "max x a \<le> fold max xs (max x a)" by (rule Cons.IH)
  then show ?case by simp
qed

lemma fold_max_upper: "x \<in> set ids \<Longrightarrow> x \<le> fold max ids (a::int)"
proof (induction ids arbitrary: a)
  case Nil
  then show ?case by simp
next
  case (Cons y ys)
  show ?case
  proof (cases "x = y")
    case True
    have "max y a \<le> fold max ys (max y a)" by (rule fold_max_lower)
    with True show ?thesis by simp
  next
    case False
    with Cons.prems have "x \<in> set ys" by simp
    then show ?thesis using Cons.IH by simp
  qed
qed

lemma next_rowid_above_seq: "seq < next_rowid seq ids"
  using fold_max_lower [of seq ids] by (simp add: next_rowid_def)

lemma next_rowid_above_ids: "x \<in> set ids \<Longrightarrow> x < next_rowid seq ids"
  using fold_max_upper [of x ids seq] by (simp add: next_rowid_def)

lemma next_rowid_fresh: "next_rowid seq ids \<notin> set ids"
  using next_rowid_above_ids [of "next_rowid seq ids" ids seq] by auto

lemma fold_max_all_below: "\<forall>x\<in>set ids. x \<le> a \<Longrightarrow> fold max ids (a::int) = a"
  by (induction ids arbitrary: a) (auto simp: max_def)

lemma next_rowid_after_insert:
  "next_rowid (next_rowid seq ids) (ids @ [next_rowid seq ids]) = next_rowid seq ids + 1"
proof -
  let ?i = "next_rowid seq ids"
  have "\<forall>x\<in>set (ids @ [?i]). x \<le> ?i"
    by (auto dest: next_rowid_above_ids [where seq = seq] less_imp_le)
  then have "fold max (ids @ [?i]) ?i = ?i" by (rule fold_max_all_below)
  then show ?thesis by (simp add: next_rowid_def)
qed

lemma autoincrement_result:
  "autoincrement seq ids =
     (if sqlite_int (next_rowid seq ids) then Inr (next_rowid seq ids) else Inl OperationalError)"
  by (simp add: autoincrement_def Let_def)

subsection \<open>Reading a row back\<close>

lemma find_append_new:
  "\<forall>r\<in>set rows. \<not> P r \<Longrightarrow> find P (rows @ [x]) = (if P x then Some x else None)"
  by (induction rows) auto

lemma find_Some_mem: "find P xs = Some x \<Longrightarrow> x \<in> set xs \<and> P x"
  by (induction xs) (auto split: if_splits)


lemma insert_user_result:
  "insert_user now (Some u) (Some e) a db =
     (if \<not> sqlite_int (next_rowid (users_seq db) (map u_id (users db)))
      then Inl OperationalError
      else if u \<in> set (map u_username (users db)) then Inl (IntegrityError UNIQUE)
      else Inr (next_rowid (users_seq db) (map u_id (users db)),
                db\<lparr>users := users db @
                     [\<lparr>u_id = next_rowid (users_seq db) (map u_id (users db)), u_username = u,
                       u_email = e, u_age = a, u_created_at = now\<rparr>],
                   users_seq := next_rowid (users_seq db) (map u_id (users db))\<rparr>))"
  by (simp add: insert_user_def autoincrement_result)

lemma insert_user_seq:
  "insert_user now name mail a db = Inr (i, db') \<Longrightarrow>
     i = next_rowid (users_seq db) (map u_id (users db)) \<and> users_seq db' = i"
  by (auto simp: insert_user_def autoincrement_result split: if_splits option.splits)

lemma select_inserted_user:
  "find (\<lambda>r. u_id r = next_rowid (users_seq db) (map u_id (users db)))
        (users db @ [\<lparr>u_id = next_rowid (users_seq db) (map u_id (users db)), u_username = u,
                       u_email = e, u_age = a, u_created_at = now\<rparr>]) =
     Some \<lparr>u_id = next_rowid (users_seq db) (map u_id (users db)), u_username = u,
           u_email = e, u_age = a, u_created_at = now\<rparr>"
proof -
  let ?i = "next_rowid (users_seq db) (map u_id (users db))"
  have "\<forall>r\<in>set (users db). \<not> u_id r = ?i"
    using next_rowid_fresh [of "users_seq db" "map u_id (users db)"] by force
  then show ?thesis by (simp add: find_append_new)
qed

subsection \<open>The batch loop\<close>




subsection \<open>The unique pair of a favorite\<close>

lemma one_pair_when_unique:
  "distinct (map (\<lambda>f. (f_quote_id f, f_user_id f)) fs) \<Longrightarrow> list_ex (is_pair q u) fs \<Longrightarrow>
     length (filter (is_pair q u) fs) = 1"
proof (induction fs)
  case Nil
  then show ?case by simp
next
  case (Cons f fs)
  show ?case
  proof (cases "is_pair q u f")
    case True
    have "(f_quote_id f, f_user_id f) \<notin> (\<lambda>f. (f_quote_id f, f_user_id f)) ` set fs"
      using Cons.prems(1) by simp
    with True have "\<forall>g\<in>set fs. \<not> is_pair q u g"
      by (auto simp: is_pair_def image_iff)
    then have "filter (is_pair q u) fs = []" by (simp add: filter_empty_conv)
    with True show ?thesis by simp
  next
    case False
    with Cons show ?thesis by simp
  qed
qed

lemma no_pair_when_absent:
  "\<not> list_ex (is_pair q u) fs \<Longrightarrow> filter (is_pair q u) fs = []"
  by (simp add: list_ex_iff filter_empty_conv)

text \<open>
  The constraint holds in the empty database and every handler that writes to the
  favorites keeps it.
\<close>

lemma favorites_unique_empty: "favorites_unique empty_quotes_db"
  by (simp add: favorites_unique_def empty_quotes_db_def)

lemma add_favorite_keeps_unique:
  assumes "favorites_unique (committed s)"
  shows "favorites_unique (committed (snd (add_favorite quote_id user_id s)))"
proof (cases "list_ex (is_pair quote_id user_id) (favorites (committed s))")
  case True
  with assms show ?thesis
    by (simp add: add_favorite_def insert_favorite_def autoincrement_result conn_defs Let_def
        favorites_unique_def)
next
  case False
  then have "(quote_id, user_id) \<notin>
      (\<lambda>f. (f_quote_id f, f_user_id f)) ` set (favorites (committed s))"
    by (auto simp: list_ex_iff is_pair_def)
  with assms False show ?thesis
    by (simp add: add_favorite_def insert_favorite_def autoincrement_result conn_defs Let_def
        favorites_unique_def)
qed

lemma remove_favorite_keeps_unique:
  "favorites_unique (committed s) \<Longrightarrow>
     favorites_unique (committed (snd (remove_favorite quote_id user_id s)))"
  by (simp add: remove_favorite_def delete_favorite_stmt_def conn_defs Let_def
      favorites_unique_def distinct_map_filter)

lemma delete_quote_keeps_unique:
  "favorites_unique (committed s) \<Longrightarrow>
     favorites_unique (committed (snd (delete_quote quote_id s)))"
  by (simp add: delete_quote_def delete_quote_stmt_def conn_defs Let_def
      favorites_unique_def distinct_map_filter)

subsection \<open>Deleting a quote\<close>

text \<open>
  On the connection that \<^verbatim>\<open>get_db_connection\<close> gives, deleting a quote never changes the
  favorites table. The quote is gone from every listing of favorites afterwards, since
  the listing joins the favorites with the quotes.
\<close>

lemma delete_quote_favorites_unchanged:
  "favorites (committed (snd (delete_quote quote_id s))) = favorites (committed s)"
  by (simp add: delete_quote_def delete_quote_stmt_def conn_defs Let_def)

lemma delete_quote_not_listed:
  assumes "fst (delete_quote quote_id s) = Success 204 ()"
    and "fst (get_favorite_quotes user_id (snd (delete_quote quote_id s))) = Success 200 listed"
  shows "quote_id \<notin> set (map (\<lambda>q. q_id (row q)) listed)"
  using assms
  by (auto simp: delete_quote_def delete_quote_stmt_def get_favorite_quotes_def
      respond_Quotes_def conn_defs Let_def split: if_splits)

subsection \<open>Identifiers handed out by a users service\<close>

lemma flask_issued_append: "flask_issued (xs @ ys) = flask_issued xs @ flask_issued ys"
  by (induction xs rule: flask_issued.induct) auto

lemma fastapi_issued_append: "fastapi_issued (xs @ ys) = fastapi_issued xs @ fastapi_issued ys"
  by (induction xs rule: fastapi_issued.induct) auto

lemma flask_create_user_seq:
  assumes "flask_create_user data s = (a, s')"
  shows "users_seq (committed s) \<le> users_seq (committed s')
   \<and> (\<forall>i\<in>set (flask_issued [a]). i \<le> users_seq (committed s'))"
proof (cases "insert_user (clock s) (get (username_key data)) (get (email_key data))
                (get (age_key data)) (committed s)")
  case (Inl e)
  then show ?thesis using assms
    by (cases e) (auto simp: flask_create_user_def conn_defs Let_def split: if_splits)
next
  case (Inr p)
  obtain i db' where p: "p = (i, db')" by (cases p)
  have "users_seq db' = i" "i = next_rowid (users_seq (committed s)) (map u_id (users (committed s)))"
    using insert_user_seq [of "clock s" _ _ _ "committed s" i db'] Inr p by auto
  then show ?thesis
    using assms Inr p
      next_rowid_above_seq [of "users_seq (committed s)" "map u_id (users (committed s))"]
    by (auto simp: flask_create_user_def conn_defs Let_def split: if_splits)
qed

lemma flask_route_seq:
  assumes "flask_route r s = (a, s')"
  shows "users_seq (committed s) \<le> users_seq (committed s')
   \<and> (\<forall>i\<in>set (flask_issued [a]). i \<le> users_seq (committed s'))"
proof (cases r)
  case (Flask_POST data)
  then show ?thesis using assms flask_create_user_seq [of data s a s'] by simp
next
  case Flask_GET_all
  then show ?thesis using assms by (auto simp: flask_get_all_users_def conn_defs Let_def)
next
  case (Flask_GET x3)
  then show ?thesis using assms
    by (auto simp: flask_get_user_def conn_defs Let_def split: option.splits if_splits)
next
  case (Flask_PUT x41 x42)
  then show ?thesis using assms
    by (auto simp: flask_update_user_def update_user_stmt_def conn_defs Let_def
        split: if_splits)
next
  case (Flask_DELETE x5)
  then show ?thesis using assms
    by (auto simp: flask_delete_user_def delete_user_stmt_def conn_defs Let_def
        split: if_splits)
qed

lemma flask_serve_seq:
  "serve flask_route reqs s0 = (as, s) \<Longrightarrow>
     users_seq (committed s0) \<le> users_seq (committed s)
   \<and> (\<forall>i\<in>set (flask_issued as). i \<le> users_seq (committed s))"
proof (induction reqs arbitrary: s0 as s)
  case Nil
  then show ?case by simp
next
  case (Cons r reqs)
  obtain a s1 where step: "flask_route r s0 = (a, s1)" by (cases "flask_route r s0")
  obtain as' s2 where rest: "serve flask_route reqs s1 = (as', s2)"
    by (cases "serve flask_route reqs s1")
  from Cons.prems step rest have eq: "as = a # as'" "s = s2" by auto
  have 1: "users_seq (committed s0) \<le> users_seq (committed s1)"
    and 2: "\<forall>i\<in>set (flask_issued [a]). i \<le> users_seq (committed s1)"
    using flask_route_seq [OF step] by auto
  have 3: "users_seq (committed s1) \<le> users_seq (committed s2)"
    and 4: "\<forall>i\<in>set (flask_issued as'). i \<le> users_seq (committed s2)"
    using Cons.IH [OF rest] by auto
  have "flask_issued (a # as') = flask_issued [a] @ flask_issued as'"
    using flask_issued_append [of "[a]" as'] by simp
  then show ?case using 1 2 3 4 eq by fastforce
qed

lemma fastapi_create_user_seq:
  assumes "fastapi_create_user email_str body s = (a, s')"
  shows "users_seq (committed s) \<le> users_seq (committed s')
   \<and> (\<forall>i\<in>set (fastapi_issued [a]). i \<le> users_seq (committed s'))"
proof (cases "UserCreate_parse email_str body")
  case None
  then show ?thesis using assms by (auto simp: fastapi_create_user_def)
next
  case (Some user)
  let ?i = "next_rowid (users_seq (committed s)) (map u_id (users (committed s)))"
  let ?new = "\<lparr>u_id = ?i, u_username = username user, u_email = email user, u_age = age user,
               u_created_at = clock s\<rparr>"
  have above: "users_seq (committed s) < ?i" by (rule next_rowid_above_seq)
  have sel: "find (\<lambda>r. u_id r = ?i) (users (committed s) @ [?new]) = Some ?new"
    by (rule select_inserted_user)
  have issued: "\<forall>i\<in>set (fastapi_issued [respond_User email_str 201 ?new]). i \<le> ?i"
  proof (cases "User_model email_str ?new")
    case None
    then show ?thesis by (simp add: respond_User_def)
  next
    case (Some r')
    then have "u_id r' = ?i"
      by (auto simp: User_model_def split: option.splits if_splits)
    with Some show ?thesis by (simp add: respond_User_def)
  qed
  show ?thesis
  proof (cases "sqlite_int ?i \<and> username user \<notin> set (map u_username (users (committed s)))")
    case True
    then have "a = respond_User email_str 201 ?new" "users_seq (committed s') = ?i"
      using assms Some sel
      by (auto simp: fastapi_create_user_def insert_user_result select_user_def conn_defs Let_def)
    then show ?thesis using issued above by simp
  next
    case False
    then show ?thesis
      using assms Some
      by (auto simp: fastapi_create_user_def insert_user_result conn_defs Let_def
          split: if_splits)
  qed
qed

lemma fastapi_update_user_seq:
  assumes "fastapi_update_user email_str user_id body s = (a, s')"
  shows "users_seq (committed s) \<le> users_seq (committed s')
   \<and> (\<forall>i\<in>set (fastapi_issued [a]). i \<le> users_seq (committed s'))"
proof -
  have seq: "users_seq (committed s') = users_seq (committed s)"
    using assms
    by (auto simp: fastapi_update_user_def update_user_stmt_def conn_defs Let_def
        split: if_splits option.splits)
  have "fastapi_issued [a] = []"
  proof (cases a)
    case (Success c b)
    then have "c = 200"
      using assms
      by (auto simp: fastapi_update_user_def update_user_stmt_def respond_User_def conn_defs
          Let_def split: if_splits option.splits)
    with Success show ?thesis by (cases b) auto
  next
    case (Failure c d)
    then show ?thesis by simp
  qed
  with seq show ?thesis by simp
qed

lemma fastapi_route_seq:
  assumes "fastapi_route email_str r s = (a, s')"
  shows "users_seq (committed s) \<le> users_seq (committed s')
   \<and> (\<forall>i\<in>set (fastapi_issued [a]). i \<le> users_seq (committed s'))"
proof (cases r)
  case (Fastapi_POST body)
  then show ?thesis using assms fastapi_create_user_seq [of email_str body s a s'] by simp
next
  case Fastapi_GET_all
  then show ?thesis using assms
    by (auto simp: fastapi_get_all_users_def respond_Users_def conn_defs Let_def
        split: option.splits)
next
  case (Fastapi_GET x3)
  then show ?thesis using assms
    by (auto simp: fastapi_get_user_def respond_User_def conn_defs Let_def
        split: option.splits if_splits)
next
  case (Fastapi_PUT x41 x42)
  then show ?thesis using assms fastapi_update_user_seq [of email_str x41 x42 s a s'] by simp
next
  case (Fastapi_DELETE x5)
  then show ?thesis using assms
    by (auto simp: fastapi_delete_user_def delete_user_stmt_def conn_defs Let_def
        split: if_splits)
qed

lemma fastapi_serve_seq:
  "serve (fastapi_route email_str) reqs s0 = (as, s) \<Longrightarrow>
     users_seq (committed s0) \<le> users_seq (committed s)
   \<and> (\<forall>i\<in>set (fastapi_issued as). i \<le> users_seq (committed s))"
proof (induction reqs arbitrary: s0 as s)
  case Nil
  then show ?case by simp
next
  case (Cons r reqs)
  obtain a s1 where step: "fastapi_route email_str r s0 = (a, s1)"
    by (cases "fastapi_route email_str r s0")
  obtain as' s2 where rest: "serve (fastapi_route email_str) reqs s1 = (as', s2)"
    by (cases "serve (fastapi_route email_str) reqs s1")
  from Cons.prems step rest have eq: "as = a # as'" "s = s2" by auto
  have 1: "users_seq (committed s0) \<le> users_seq (committed s1)"
    and 2: "\<forall>i\<in>set (fastapi_issued [a]). i \<le> users_seq (committed s1)"
    using fastapi_route_seq [OF step] by auto
  have 3: "users_seq (committed s1) \<le> users_seq (committed s2)"
    and 4: "\<forall>i\<in>set (fastapi_issued as'). i \<le> users_seq (committed s2)"
    using Cons.IH [OF rest] by auto
  have "fastapi_issued (a # as') = fastapi_issued [a] @ fastapi_issued as'"
    using fastapi_issued_append [of "[a]" as'] by simp
  then show ?case using 1 2 3 4 eq by fastforce
qed

lemma flask_create_user_result:
  assumes "username_key data = Val u" "email_key data = Val e"
    and "bindable (get (age_key data))"
    and "sqlite_int (next_rowid (users_seq (committed s)) (map u_id (users (committed s))))"
  shows "fst (flask_create_user data s) =
     (if u \<in> set (map u_username (users (committed s)))
      then Failure 409 (Message (already_exists (Some u)))
      else Success 201 (Created_body ''User created successfully''
             (next_rowid (users_seq (committed s)) (map u_id (users (committed s))))))"
  using assms
  by (simp add: flask_create_user_def insert_user_result conn_defs Let_def)

lemma UserCreate_parse_valid:
  assumes "UserCreate_parse email_str body = Some user"
  shows "3 \<le> length (username user) \<and> length (username user) \<le> 50 \<and> age_ok (age user)
         \<and> (\<exists>e. email_str e = Some (email user))"
  using assms
  by (auto simp: UserCreate_parse_def split: field.splits if_splits option.splits)

lemma fastapi_create_user_result:
  assumes "UserCreate_parse email_str body = Some user"
    and "accepts_own_output email_str"
    and "sqlite_int (next_rowid (users_seq (committed s)) (map u_id (users (committed s))))"
  shows "fst (fastapi_create_user email_str body s) =
     (if username user \<in> set (map u_username (users (committed s)))
      then Failure 409 (Message (already_exists (Some (username user))))
      else Success 201 (User_out
             \<lparr>u_id = next_rowid (users_seq (committed s)) (map u_id (users (committed s))),
              u_username = username user, u_email = email user, u_age = age user,
              u_created_at = clock s\<rparr>))"
proof -
  let ?i = "next_rowid (users_seq (committed s)) (map u_id (users (committed s)))"
  let ?new = "\<lparr>u_id = ?i, u_username = username user, u_email = email user, u_age = age user,
               u_created_at = clock s\<rparr>"
  have sel: "find (\<lambda>r. u_id r = ?i) (users (committed s) @ [?new]) = Some ?new"
    by (rule select_inserted_user)
  have valid: "3 \<le> length (username user)" "length (username user) \<le> 50" "age_ok (age user)"
    and "\<exists>e. email_str e = Some (email user)"
    using UserCreate_parse_valid [OF assms(1)] by auto
  then have "email_str (email user) = Some (email user)"
    using assms(2) by (auto simp: accepts_own_output_def)
  with valid have "respond_User email_str 201 ?new = Success 201 (User_out ?new)"
    by (simp add: respond_User_def User_model_def)
  then show ?thesis
    using assms(1,3) sel
    by (simp add: fastapi_create_user_def insert_user_result select_user_def conn_defs Let_def)
qed

section \<open>The claims\<close>

text \<open>
  C1. Deleting a quote is said to remove every favorite row that references it. The
  handler deletes the quote on a connection that does not enforce foreign keys, so the
  cascade of the schema does not run: in the example store the favorite of alice for
  quote 1 is still in the table after quote 1 is deleted. The listing of alice's favorites
  is empty all the same, because it joins the favorites with the quotes that remain.
\<close>

theorem delete_quote_keeps_favorites:
  "fst (delete_quote 1 quotes_store1) = Success 204 ()
   \<and> quotes (committed (snd (delete_quote 1 quotes_store1))) = []
   \<and> favorites (committed (snd (delete_quote 1 quotes_store1))) = [favorite1]
   \<and> f_quote_id favorite1 = 1
   \<and> fst (get_favorite_quotes ''alice'' (snd (delete_quote 1 quotes_store1))) = Success 200 []"
  by (simp add: delete_quote_def delete_quote_stmt_def get_favorite_quotes_def quote_exists_def
      respond_Quotes_def sqlite_int_def conn_defs example_defs Let_def)

text \<open>
  C2. Every operation is said to close its connection on every path. The handlers close
  it on the paths they end themselves (success, 404), but no \<^verbatim>\<open>except\<close> clause closes it:
  creating a user whose username is taken answers 409 and leaves one connection open,
  where creating jane (201) and updating the missing user 7 (404) leave none.
\<close>

theorem flask_create_user_duplicate_leaves_connection_open:
  "open_conns users_store1 = 0
   \<and> flask_create_user \<lparr>username_key = Val ''johndoe'', email_key = Val ''jd@example.com'',
                        age_key = Absent, other_keys = []\<rparr> users_store1 =
       (Failure 409 (Message (already_exists (Some ''johndoe''))),
        users_store1\<lparr>open_conns := 1\<rparr>)
   \<and> open_conns (snd (flask_create_user jane_json users_store1)) = 0
   \<and> open_conns (snd (flask_update_user 7 new_email_json users_store1)) = 0"
  by (simp add: flask_create_user_def flask_update_user_def insert_user_def user_exists_def
      autoincrement_def next_rowid_def sqlite_int_def conn_defs example_defs Let_def)

text \<open>
  C3. An update is said to return the record read back from the store, in both users
  services. The Flask service answers 200 with a message only, although the row is
  updated; the FastAPI service, given the same update in the same store, returns the
  record.
\<close>

theorem flask_update_user_returns_message:
  "fst (flask_update_user 1 new_email_json users_store1) =
     Success 200 (Message_body ''User updated successfully'')
   \<and> fst (flask_update_user 1 new_email_json users_store1) \<noteq>
     Success 200 (User_body (user1\<lparr>u_email := ''new@x.com''\<rparr>))
   \<and> users (committed (snd (flask_update_user 1 new_email_json users_store1))) =
     [user1\<lparr>u_email := ''new@x.com''\<rparr>]
   \<and> fst (fastapi_update_user (\<lambda>e. Some e) 1 \<lparr>email_up = Val ''new@x.com'', age_up = Absent\<rparr>
            users_store1) =
     Success 200 (User_out (user1\<lparr>u_email := ''new@x.com''\<rparr>))"
  by (simp add: users_handler_defs conn_defs example_defs Let_def)

text \<open>
  C4, as stated: a call for a quote that is not in the store answers 404, and two calls
  for a quote that is in the store both succeed. An identifier that is not a 64-bit
  integer cannot be bound and is answered with 500; so is a call on a favorites table
  whose rowids are used up.
\<close>

theorem add_favorite_beyond_the_store:
  "\<not> quote_exists 9223372036854775808 (committed quotes_store1)
   \<and> add_favorite 9223372036854775808 ''bob'' quotes_store1 =
       (Failure 500 (Str OverflowError), quotes_store1\<lparr>open_conns := 1\<rparr>)
   \<and> quote_exists 1 (committed quotes_store_full)
   \<and> add_favorite 1 ''bob'' quotes_store_full =
       (Failure 500 (Str OperationalError), quotes_store_full\<lparr>open_conns := 1\<rparr>)"
  by (simp add: add_favorite_def insert_favorite_def quote_exists_def autoincrement_def
      next_rowid_def sqlite_int_def conn_defs example_defs Let_def)

text \<open>
  C4, amended. Marking a favorite is idempotent. In a store whose favorites satisfy
  \<^verbatim>\<open>UNIQUE(quote_id, user_id)\<close> and have rowids left, for a quote that exists, two calls
  with the same pair both answer 200 with success and leave exactly one row for the pair.
  For a quote that does not exist the call answers 404 when the identifier is a 64-bit
  integer, and 500 when it is not.
\<close>

theorem add_favorite_idempotent:
  assumes "favorites_unique (committed s)"
  shows "(quote_exists quote_id (committed s) \<and> sqlite_int quote_id
            \<and> rowids_left 2 (favorites_seq (committed s)) (map f_id (favorites (committed s)))
          \<longrightarrow>
            (let (r1, s1) = add_favorite quote_id user_id s;
                 (r2, s2) = add_favorite quote_id user_id s1
             in r1 = Success 200 True \<and> r2 = Success 200 True
                \<and> length (filter (is_pair quote_id user_id) (favorites (committed s2))) = 1))
       \<and> (\<not> quote_exists quote_id (committed s) \<and> sqlite_int quote_id \<longrightarrow>
            fst (add_favorite quote_id user_id s) = Failure 404 (Message ''Quote not found''))
       \<and> (\<not> sqlite_int quote_id \<longrightarrow>
            fst (add_favorite quote_id user_id s) = Failure 500 (Str OverflowError))"
proof (cases "list_ex (is_pair quote_id user_id) (favorites (committed s))")
  case True
  then show ?thesis
    using one_pair_when_unique [OF assms [unfolded favorites_unique_def] True]
    by (simp add: add_favorite_def insert_favorite_def autoincrement_result rowids_left_def
        conn_defs Let_def quote_exists_def)
next
  case False
  let ?n = "next_rowid (favorites_seq (committed s)) (map f_id (favorites (committed s)))"
  have "next_rowid ?n (map f_id (favorites (committed s)) @ [?n]) = ?n + 1"
    by (rule next_rowid_after_insert)
  then show ?thesis
    using False no_pair_when_absent [OF False]
    by (simp add: add_favorite_def insert_favorite_def autoincrement_result rowids_left_def
        conn_defs Let_def quote_exists_def is_pair_def add.commute)
qed

text \<open>
  C4, amended, on the example: bob marks quote 1 twice; quote 5 does not exist; the
  number after the largest 64-bit integer cannot be bound.
\<close>

theorem add_favorite_idempotent_witness:
  "favorites_unique (committed quotes_store1)
   \<and> quote_exists 1 (committed quotes_store1) \<and> sqlite_int 1
   \<and> rowids_left 2 (favorites_seq (committed quotes_store1))
        (map f_id (favorites (committed quotes_store1)))
   \<and> fst (add_favorite 1 ''bob'' quotes_store1) = Success 200 True
   \<and> fst (add_favorite 1 ''bob'' (snd (add_favorite 1 ''bob'' quotes_store1))) = Success 200 True
   \<and> length (filter (is_pair 1 ''bob'')
        (favorites (committed (snd (add_favorite 1 ''bob''
           (snd (add_favorite 1 ''bob'' quotes_store1))))))) = 1
   \<and> \<not> quote_exists 5 (committed quotes_store1) \<and> sqlite_int 5
   \<and> fst (add_favorite 5 ''bob'' quotes_store1) = Failure 404 (Message ''Quote not found'')
   \<and> \<not> sqlite_int 9223372036854775808
   \<and> fst (add_favorite 9223372036854775808 ''bob'' quotes_store1) =
       Failure 500 (Str OverflowError)"
  using add_favorite_idempotent [where s = quotes_store1 and quote_id = 1 and user_id = "''bob''"]
    add_favorite_idempotent [where s = quotes_store1 and quote_id = 5 and user_id = "''bob''"]
    add_favorite_idempotent [where s = quotes_store1 and quote_id = 9223372036854775808
      and user_id = "''bob''"]
  by (simp add: quote_exists_def favorites_unique_def rowids_left_def next_rowid_def
      sqlite_int_def example_defs split_beta Let_def)

text \<open>
  C5, as stated: for every store state, a username in the store gives 409 and a username
  not in the store gives success. In the Flask service a fresh username with a null email
  is answered with 409, and a taken username with an age that is not a 64-bit integer with
  500; on a users table whose rowids are used up a fresh username is answered with 500; in
  the FastAPI service bob, who is not in the store, is answered with 422 for his age of 150.
\<close>

theorem create_user_other_answers:
  "''jane'' \<notin> set (map u_username (users (committed users_store1)))
   \<and> fst (flask_create_user \<lparr>username_key = Val ''jane'', email_key = Null, age_key = Absent,
                             other_keys = []\<rparr> users_store1) =
       Failure 409 (Message (already_exists (Some ''jane'')))
   \<and> ''johndoe'' \<in> set (map u_username (users (committed users_store1)))
   \<and> fst (flask_create_user \<lparr>username_key = Val ''johndoe'', email_key = Val ''jd@example.com'',
                             age_key = Val 9223372036854775808, other_keys = []\<rparr>
            users_store1) =
       Failure 500 (Str OverflowError)
   \<and> ''jane'' \<notin> set (map u_username (users (committed users_store_full)))
   \<and> fst (flask_create_user jane_json users_store_full) = Failure 500 (Str OperationalError)
   \<and> ''bob'' \<notin> set (map u_username (users (committed users_store1)))
   \<and> fst (fastapi_create_user (\<lambda>e. Some e) bob_json users_store1) =
       Failure 422 (Message ''Unprocessable Entity'')"
  by (simp add: users_handler_defs conn_defs example_defs Let_def)

text \<open>
  C5, amended. Take the state of a users service after it has answered any list of
  requests, starting from a store whose sequence counter is not negative, and let the
  users table have a rowid left. For a payload the service can store (Flask: username and
  email given as strings, age absent, null or a 64-bit integer; FastAPI: a body that passes
  \<^verbatim>\<open>UserCreate\<close>), creating a user whose username is in the store answers 409, and
  creating one whose username is not in the store answers 201 with an identifier that is
  positive, is held by no row and was handed out by none of the earlier answers.
\<close>

theorem create_user_conflict_or_fresh_id:
  assumes "0 \<le> users_seq (committed s0)"
  shows "(serve flask_route freqs s0 = (fas, fs) \<and> username_key data = Val u
            \<and> email_key data = Val e \<and> bindable (get (age_key data))
            \<and> rowids_left 1 (users_seq (committed fs)) (map u_id (users (committed fs)))
          \<longrightarrow>
           (if u \<in> set (map u_username (users (committed fs)))
            then fst (flask_create_user data fs) = Failure 409 (Message (already_exists (Some u)))
            else \<exists>i. fst (flask_create_user data fs) =
                        Success 201 (Created_body ''User created successfully'' i)
                    \<and> 0 < i \<and> i \<notin> set (flask_issued fas)
                    \<and> i \<notin> set (map u_id (users (committed fs)))))
       \<and> (serve (fastapi_route email_str) reqs s0 = (as, s)
            \<and> UserCreate_parse email_str body = Some user \<and> accepts_own_output email_str
            \<and> rowids_left 1 (users_seq (committed s)) (map u_id (users (committed s)))
          \<longrightarrow>
           (if username user \<in> set (map u_username (users (committed s)))
            then fst (fastapi_create_user email_str body s) =
                   Failure 409 (Message (already_exists (Some (username user))))
            else \<exists>r. fst (fastapi_create_user email_str body s) = Success 201 (User_out r)
                    \<and> u_username r = username user \<and> u_email r = email user
                    \<and> u_age r = age user
                    \<and> 0 < u_id r \<and> u_id r \<notin> set (fastapi_issued as)
                    \<and> u_id r \<notin> set (map u_id (users (committed s)))))"
proof (intro conjI impI)
  assume a: "serve flask_route freqs s0 = (fas, fs) \<and> username_key data = Val u
            \<and> email_key data = Val e \<and> bindable (get (age_key data))
            \<and> rowids_left 1 (users_seq (committed fs)) (map u_id (users (committed fs)))"
  let ?i = "next_rowid (users_seq (committed fs)) (map u_id (users (committed fs)))"
  have room: "sqlite_int ?i" using a by (simp add: rowids_left_def)
  have seq: "users_seq (committed s0) \<le> users_seq (committed fs)"
    and old: "\<forall>i\<in>set (flask_issued fas). i \<le> users_seq (committed fs)"
    using flask_serve_seq [of freqs s0 fas fs] a by auto
  have above: "users_seq (committed fs) < ?i" by (rule next_rowid_above_seq)
  have pos: "0 < ?i" using assms seq above by linarith
  have new: "?i \<notin> set (flask_issued fas)" using old above by fastforce
  have fresh: "?i \<notin> set (map u_id (users (committed fs)))" by (rule next_rowid_fresh)
  have "fst (flask_create_user data fs) =
     (if u \<in> set (map u_username (users (committed fs)))
      then Failure 409 (Message (already_exists (Some u)))
      else Success 201 (Created_body ''User created successfully'' ?i))"
    using a room by (intro flask_create_user_result) auto
  then show "if u \<in> set (map u_username (users (committed fs)))
        then fst (flask_create_user data fs) = Failure 409 (Message (already_exists (Some u)))
        else \<exists>i. fst (flask_create_user data fs) =
                    Success 201 (Created_body ''User created successfully'' i)
                \<and> 0 < i \<and> i \<notin> set (flask_issued fas)
                \<and> i \<notin> set (map u_id (users (committed fs)))"
    using pos new fresh by auto
next
  assume a: "serve (fastapi_route email_str) reqs s0 = (as, s)
            \<and> UserCreate_parse email_str body = Some user \<and> accepts_own_output email_str
            \<and> rowids_left 1 (users_seq (committed s)) (map u_id (users (committed s)))"
  let ?i = "next_rowid (users_seq (committed s)) (map u_id (users (committed s)))"
  have room: "sqlite_int ?i" using a by (simp add: rowids_left_def)
  have seq: "users_seq (committed s0) \<le> users_seq (committed s)"
    and old: "\<forall>i\<in>set (fastapi_issued as). i \<le> users_seq (committed s)"
    using fastapi_serve_seq [of email_str reqs s0 as s] a by auto
  have above: "users_seq (committed s) < ?i" by (rule next_rowid_above_seq)
  have pos: "0 < ?i" using assms seq above by linarith
  have new: "?i \<notin> set (fastapi_issued as)" using old above by fastforce
  have fresh: "?i \<notin> set (map u_id (users (committed s)))" by (rule next_rowid_fresh)
  have "fst (fastapi_create_user email_str body s) =
     (if username user \<in> set (map u_username (users (committed s)))
      then Failure 409 (Message (already_exists (Some (username user))))
      else Success 201 (User_out
             \<lparr>u_id = ?i, u_username = username user, u_email = email user, u_age = age user,
              u_created_at = clock s\<rparr>))"
    using a room by (intro fastapi_create_user_result) auto
  then show "if username user \<in> set (map u_username (users (committed s)))
        then fst (fastapi_create_user email_str body s) =
               Failure 409 (Message (already_exists (Some (username user))))
        else \<exists>r. fst (fastapi_create_user email_str body s) = Success 201 (User_out r)
                \<and> u_username r = username user \<and> u_email r = email user
                \<and> u_age r = age user
                \<and> 0 < u_id r \<and> u_id r \<notin> set (fastapi_issued as)
                \<and> u_id r \<notin> set (map u_id (users (committed s)))"
    using pos new fresh by auto
qed

text \<open>
  C5, amended, on the example: on an empty store johndoe is created with identifier 1 and
  deleted; jane then gets 2, not 1 again. Creating johndoe a second time answers 409.
\<close>

theorem create_user_conflict_or_fresh_id_witness:
  "0 \<le> users_seq (committed users_store0)
   \<and> serve flask_route [Flask_POST john_json, Flask_DELETE 1] users_store0 =
       ([Success 201 (Created_body ''User created successfully'' 1),
         Success 200 (Message_body ''User deleted successfully'')],
        users_store0\<lparr>committed := \<lparr>users = [], users_seq = 1\<rparr>, commits := 2\<rparr>)
   \<and> fst (flask_create_user jane_json
            (users_store0\<lparr>committed := \<lparr>users = [], users_seq = 1\<rparr>, commits := 2\<rparr>)) =
       Success 201 (Created_body ''User created successfully'' 2)
   \<and> accepts_own_output (\<lambda>e. Some e)
   \<and> fst (fastapi_create_user (\<lambda>e. Some e) john_json
            (snd (serve (fastapi_route (\<lambda>e. Some e)) [Fastapi_POST john_json] users_store0))) =
       Failure 409 (Message (already_exists (Some ''johndoe'')))"
  using create_user_conflict_or_fresh_id [where ?s0.0 = users_store0
      and freqs = "[Flask_POST john_json, Flask_DELETE 1]"
      and fas = "[Success 201 (Created_body ''User created successfully'' 1),
         Success 200 (Message_body ''User deleted successfully'')]"
      and fs = "users_store0\<lparr>committed := \<lparr>users = [], users_seq = 1\<rparr>, commits := 2\<rparr>"
      and data = jane_json and u = "''jane''" and e = "''jane@example.com''"
      and email_str = "\<lambda>e. Some e"
      and reqs = "[Fastapi_POST john_json]"
      and as = "fst (serve (fastapi_route (\<lambda>e. Some e)) [Fastapi_POST john_json] users_store0)"
      and s = "snd (serve (fastapi_route (\<lambda>e. Some e)) [Fastapi_POST john_json] users_store0)"
      and body = john_json
      and user = "\<lparr>username = ''johndoe'', email = ''john@example.com'', age = Some 30\<rparr>"]
  by (simp add: users_handler_defs accepts_own_output_def rowids_left_def conn_defs example_defs
      Let_def)

text \<open>
  C6, as stated: in either users service a request whose age lies outside 0 to 120 is
  rejected rather than inserted. The Flask service inserts bob with age 150.
\<close>

theorem flask_create_user_inserts_any_age:
  "flask_create_user bob_json users_store0 =
     (Success 201 (Created_body ''User created successfully'' 1),
      \<lparr>committed = \<lparr>users = [\<lparr>u_id = 1, u_username = ''bob'', u_email = ''bob@example.com'',
                               u_age = Some 150, u_created_at = ''2024-01-03 12:00:00''\<rparr>],
                    users_seq = 1\<rparr>,
       open_conns = 0, commits = 1, clock = ''2024-01-03 12:00:00''\<rparr>)"
  by (simp add: users_handler_defs conn_defs example_defs Let_def)

text \<open>
  C6, amended. Both users services reject a Create whose username or email is missing and
  leave the store as it was (Flask with 400, FastAPI with 422). Only the FastAPI service
  checks the range of the age: a request with an age outside 0 to 120 is answered with 422
  and nothing is inserted. The Flask service has no such check: a request with an age that
  is a 64-bit integer is answered as the same request without the age is, and when the
  answer is a success the row inserted carries the age supplied.
\<close>

theorem create_user_validation:
  "(\<not> is_set (username_key body) \<or> \<not> is_set (email_key body) \<longrightarrow>
      flask_create_user body s = (Failure 400 (Message ''Username and email are required''), s)
    \<and> fastapi_create_user email_str body s =
        (Failure 422 (Message ''Unprocessable Entity''), s))
   \<and> (age_key body = Val a \<and> (a < 0 \<or> 120 < a) \<longrightarrow>
      fastapi_create_user email_str body s =
        (Failure 422 (Message ''Unprocessable Entity''), s))
   \<and> (age_key body = Val a \<and> sqlite_int a \<longrightarrow>
      fst (flask_create_user body s) = fst (flask_create_user (body\<lparr>age_key := Absent\<rparr>) s)
    \<and> (\<forall>c b s'. flask_create_user body s = (Success c b, s') \<longrightarrow>
          (\<exists>r. users (committed s') = users (committed s) @ [r] \<and> u_age r = Some a)))"
proof (intro conjI impI)
  assume "\<not> is_set (username_key body) \<or> \<not> is_set (email_key body)"
  then show "flask_create_user body s =
      (Failure 400 (Message ''Username and email are required''), s)"
    by (auto simp: flask_create_user_def)
next
  assume "\<not> is_set (username_key body) \<or> \<not> is_set (email_key body)"
  then show "fastapi_create_user email_str body s =
      (Failure 422 (Message ''Unprocessable Entity''), s)"
    by (auto simp: fastapi_create_user_def UserCreate_parse_def split: field.splits)
next
  assume "age_key body = Val a \<and> (a < 0 \<or> 120 < a)"
  then show "fastapi_create_user email_str body s =
      (Failure 422 (Message ''Unprocessable Entity''), s)"
    by (auto simp: fastapi_create_user_def UserCreate_parse_def age_ok_def
        split: field.splits option.splits)
next
  assume a: "age_key body = Val a \<and> sqlite_int a"
  then show "fst (flask_create_user body s) =
      fst (flask_create_user (body\<lparr>age_key := Absent\<rparr>) s)"
    by (auto simp: flask_create_user_def insert_user_def autoincrement_result conn_defs Let_def
        split: option.splits sum.splits)
next
  assume a: "age_key body = Val a \<and> sqlite_int a"
  then show "\<forall>c b s'. flask_create_user body s = (Success c b, s') \<longrightarrow>
      (\<exists>r. users (committed s') = users (committed s) @ [r] \<and> u_age r = Some a)"
    by (auto simp: flask_create_user_def insert_user_def autoincrement_result conn_defs Let_def
        split: option.splits sum.splits if_splits py_exception.splits)
qed

text \<open>
  C6, amended, on the example: age 150 is refused by FastAPI and stored by Flask; a body
  without email is refused by Flask.
\<close>

theorem create_user_validation_witness:
  "fastapi_create_user (\<lambda>e. Some e) bob_json users_store0 =
     (Failure 422 (Message ''Unprocessable Entity''), users_store0)
   \<and> flask_create_user \<lparr>username_key = Val ''bob'', email_key = Absent, age_key = Val 20,
       other_keys = []\<rparr> users_store0 =
     (Failure 400 (Message ''Username and email are required''), users_store0)
   \<and> sqlite_int 150
   \<and> fst (flask_create_user bob_json users_store0) =
       Success 201 (Created_body ''User created successfully'' 1)
   \<and> u_age (last (users (committed (snd (flask_create_user bob_json users_store0))))) = Some 150"
  using create_user_validation [where body = bob_json
      and s = users_store0 and email_str = "\<lambda>e. Some e" and a = 150]
    create_user_validation [where body = "\<lparr>username_key = Val ''bob'', email_key = Absent,
        age_key = Val 20, other_keys = []\<rparr>"
      and s = users_store0 and email_str = "\<lambda>e. Some e" and a = 20]
  by (simp add: users_handler_defs conn_defs example_defs Let_def)

text \<open>
  C7. An update that sets none of the recognised fields answers 400 for every identifier
  and every store, and the store is returned as it was: no connection is opened. This
  holds for the Flask and FastAPI users services and for the quotes service.
\<close>

theorem update_without_fields_is_bad_request:
  "(\<not> is_set (email_key data) \<and> \<not> is_set (age_key data) \<longrightarrow>
      flask_update_user user_id data s =
        (Failure 400 (Message (if \<not> is_set (username_key data) \<and> other_keys data = []
                               then ''No data provided for update''
                               else ''No valid fields to update'')), s))
   \<and> (\<not> is_set (email_up user_update) \<and> \<not> is_set (age_up user_update) \<longrightarrow>
      fastapi_update_user email_str user_id user_update s =
        (Failure 400 (Message ''No valid fields to update''), s))
   \<and> (\<not> is_set (text_up quote_update) \<and> \<not> is_set (author_up quote_update) \<and>
      \<not> is_set (source_up quote_update) \<and> \<not> is_set (category_up quote_update) \<longrightarrow>
      update_quote quote_id quote_update uid qs =
        (Failure 400 (Message ''No valid fields to update''), qs))"
proof (intro conjI impI)
  assume "\<not> is_set (email_key data) \<and> \<not> is_set (age_key data)"
  then show "flask_update_user user_id data s =
        (Failure 400 (Message (if \<not> is_set (username_key data) \<and> other_keys data = []
                               then ''No data provided for update''
                               else ''No valid fields to update'')), s)"
    by (simp add: flask_update_user_def)
next
  assume a: "\<not> is_set (email_up user_update) \<and> \<not> is_set (age_up user_update)"
  then have "email_up user_update = Absent" "age_up user_update = Absent"
    by (cases "email_up user_update"; cases "age_up user_update"; simp)+
  then show "fastapi_update_user email_str user_id user_update s =
        (Failure 400 (Message ''No valid fields to update''), s)"
    by (simp add: fastapi_update_user_def UserUpdate_parse_def age_ok_def)
next
  assume "\<not> is_set (text_up quote_update) \<and> \<not> is_set (author_up quote_update) \<and>
      \<not> is_set (source_up quote_update) \<and> \<not> is_set (category_up quote_update)"
  then show "update_quote quote_id quote_update uid qs =
        (Failure 400 (Message ''No valid fields to update''), qs)"
    by (simp add: update_quote_def)
qed

text \<open>
  C7 on the example: identifier 7 is in neither store, and the answer is 400, not 404.
\<close>

theorem update_without_fields_witness:
  "flask_update_user 7 \<lparr>username_key = Val ''x'', email_key = Absent, age_key = Absent,
       other_keys = [''nickname'']\<rparr> users_store1 =
     (Failure 400 (Message ''No valid fields to update''), users_store1)
   \<and> fastapi_update_user (\<lambda>e. Some e) 7 \<lparr>email_up = Absent, age_up = Absent\<rparr> users_store1 =
     (Failure 400 (Message ''No valid fields to update''), users_store1)
   \<and> update_quote 7 \<lparr>text_up = Absent, author_up = Absent, source_up = Absent,
       category_up = Absent\<rparr> None quotes_store1 =
     (Failure 400 (Message ''No valid fields to update''), quotes_store1)
   \<and> \<not> user_exists 7 (committed users_store1)
   \<and> \<not> quote_exists 7 (committed quotes_store1)"
  using update_without_fields_is_bad_request [where data = "\<lparr>username_key = Val ''x'',
        email_key = Absent, age_key = Absent, other_keys = [''nickname'']\<rparr>"
      and user_id = 7 and s = users_store1 and email_str = "\<lambda>e. Some e"
      and user_update = "\<lparr>email_up = Absent, age_up = Absent\<rparr>"
      and quote_update = "\<lparr>text_up = Absent, author_up = Absent, source_up = Absent,
        category_up = Absent\<rparr>"
      and quote_id = 7 and uid = None and qs = quotes_store1]
  by (simp add: user_exists_def quote_exists_def example_defs)

text \<open>
  C8, as stated: removing a favorite never fails, for every quote identifier. An
  identifier that is not a 64-bit integer cannot be bound: the call is answered with 500.
\<close>

theorem remove_favorite_beyond_the_store:
  "remove_favorite 9223372036854775808 ''alice'' quotes_store1 =
     (Failure 500 (Str OverflowError), quotes_store1\<lparr>open_conns := 1\<rparr>)"
  by (simp add: remove_favorite_def sqlite_int_def conn_defs example_defs Let_def)

text \<open>
  C8, amended. For every quote identifier that is a 64-bit integer and every user,
  removing a favorite answers 200: the rows of the pair are deleted, the other rows and the
  quotes stay, the connection is closed, and the reported success is true exactly when the
  store held a row for the pair. For an identifier that is not a 64-bit integer the answer
  is 500 and nothing is deleted.
\<close>

theorem remove_favorite_reports_removal:
  "(sqlite_int quote_id \<longrightarrow>
      fst (remove_favorite quote_id user_id s) =
        Success 200 (list_ex (is_pair quote_id user_id) (favorites (committed s)))
    \<and> favorites (committed (snd (remove_favorite quote_id user_id s))) =
        filter (\<lambda>f. \<not> is_pair quote_id user_id f) (favorites (committed s))
    \<and> quotes (committed (snd (remove_favorite quote_id user_id s))) = quotes (committed s)
    \<and> open_conns (snd (remove_favorite quote_id user_id s)) = open_conns s)
   \<and> (\<not> sqlite_int quote_id \<longrightarrow>
      fst (remove_favorite quote_id user_id s) = Failure 500 (Str OverflowError)
    \<and> committed (snd (remove_favorite quote_id user_id s)) = committed s)"
  by (simp add: remove_favorite_def delete_favorite_stmt_def conn_defs Let_def
      list_ex_iff filter_empty_conv)

text \<open>
  C8, amended, on the example: alice has marked quote 1, bob has not.
\<close>

theorem remove_favorite_witness:
  "sqlite_int 1
   \<and> fst (remove_favorite 1 ''alice'' quotes_store1) = Success 200 True
   \<and> fst (remove_favorite 1 ''bob'' quotes_store1) = Success 200 False
   \<and> favorites (committed (snd (remove_favorite 1 ''alice'' quotes_store1))) = []
   \<and> favorites (committed (snd (remove_favorite 1 ''bob'' quotes_store1))) = [favorite1]
   \<and> \<not> sqlite_int 9223372036854775808
   \<and> fst (remove_favorite 9223372036854775808 ''alice'' quotes_store1) =
       Failure 500 (Str OverflowError)"
  using remove_favorite_reports_removal [of 1 "''alice''" quotes_store1]
    remove_favorite_reports_removal [of 1 "''bob''" quotes_store1]
    remove_favorite_reports_removal [of 9223372036854775808 "''alice''" quotes_store1]
  by (simp add: example_defs is_pair_def sqlite_int_def)

text \<open>
  C9. Without a user identifier, every quote in a result carries
  \<^verbatim>\<open>is_favorite = false\<close>, whatever favorite rows the store holds: when the list of all
  quotes is answered with a success, it is the quotes of the store, each marked false, and
  it is answered so whenever no stored text is empty; the quote that reading one quote or
  updating one quote returns is marked false as well.
\<close>

theorem no_user_id_not_favorite:
  "(\<forall>c listed. fst (get_all_quotes None s) = Success c listed \<longrightarrow>
      c = 200
    \<and> listed = map (\<lambda>r. \<lparr>row = r, is_favorite = False\<rparr>) (quotes (committed s))
    \<and> (\<forall>q\<in>set listed. \<not> is_favorite q))
   \<and> (list_all (\<lambda>r. q_text r \<noteq> []) (quotes (committed s)) \<longrightarrow>
      fst (get_all_quotes None s) =
        Success 200 (map (\<lambda>r. \<lparr>row = r, is_favorite = False\<rparr>) (quotes (committed s))))
   \<and> (\<forall>c q. fst (get_quote quote_id None s) = Success c q \<longrightarrow> \<not> is_favorite q)
   \<and> (\<forall>c q. fst (update_quote quote_id quote_update None s) = Success c q \<longrightarrow> \<not> is_favorite q)"
proof (intro conjI)
  have all: "fst (get_all_quotes None s) =
      respond_Quotes 200 (map (\<lambda>r. \<lparr>row = r, is_favorite = False\<rparr>) (quotes (committed s)))"
    by (simp add: get_all_quotes_def mark_def [abs_def] conn_defs Let_def)
  show "\<forall>c listed. fst (get_all_quotes None s) = Success c listed \<longrightarrow>
      c = 200
    \<and> listed = map (\<lambda>r. \<lparr>row = r, is_favorite = False\<rparr>) (quotes (committed s))
    \<and> (\<forall>q\<in>set listed. \<not> is_favorite q)"
    by (auto simp: all respond_Quotes_def split: if_splits)
  show "list_all (\<lambda>r. q_text r \<noteq> []) (quotes (committed s)) \<longrightarrow>
      fst (get_all_quotes None s) =
        Success 200 (map (\<lambda>r. \<lparr>row = r, is_favorite = False\<rparr>) (quotes (committed s)))"
    by (simp add: all respond_Quotes_def Quote_model_def list_all_iff)
  show "\<forall>c q. fst (get_quote quote_id None s) = Success c q \<longrightarrow> \<not> is_favorite q"
    by (auto simp: get_quote_def respond_Quote_def is_favorite_of_def conn_defs Let_def
        split: option.splits if_splits)
  show "\<forall>c q. fst (update_quote quote_id quote_update None s) = Success c q \<longrightarrow>
      \<not> is_favorite q"
    by (auto simp: update_quote_def respond_Quote_def is_favorite_of_def conn_defs Let_def
        split: option.splits sum.splits if_splits)
qed

text \<open>
  C9 on the example: quote 1 is a favorite of alice, and is returned as not favorite.
\<close>

theorem no_user_id_not_favorite_witness:
  "favorites (committed quotes_store1) = [favorite1]
   \<and> list_all (\<lambda>r. q_text r \<noteq> []) (quotes (committed quotes_store1))
   \<and> fst (get_all_quotes None quotes_store1) = Success 200 [\<lparr>row = quote1, is_favorite = False\<rparr>]
   \<and> fst (get_quote 1 None quotes_store1) = Success 200 \<lparr>row = quote1, is_favorite = False\<rparr>
   \<and> fst (update_quote 1 \<lparr>text_up = Absent, author_up = Val ''Plato'', source_up = Absent,
            category_up = Absent\<rparr> None quotes_store1) =
       Success 200 \<lparr>row = quote1\<lparr>q_author := ''Plato''\<rparr>, is_favorite = False\<rparr>"
proof -
  have stored: "favorites (committed quotes_store1) = [favorite1]"
    "list_all (\<lambda>r. q_text r \<noteq> []) (quotes (committed quotes_store1))"
    by (simp_all add: example_defs)
  have one: "fst (get_quote 1 None quotes_store1) =
      Success 200 \<lparr>row = quote1, is_favorite = False\<rparr>"
    by (simp add: get_quote_def select_quote_def is_favorite_of_def respond_Quote_def
        Quote_model_def sqlite_int_def conn_defs example_defs Let_def)
  have upd: "fst (update_quote 1 \<lparr>text_up = Absent, author_up = Val ''Plato'',
        source_up = Absent, category_up = Absent\<rparr> None quotes_store1) =
      Success 200 \<lparr>row = quote1\<lparr>q_author := ''Plato''\<rparr>, is_favorite = False\<rparr>"
    by (simp add: update_quote_def update_quote_stmt_def select_quote_def quote_exists_def
        set_quote_fields_def is_favorite_of_def respond_Quote_def Quote_model_def
        sqlite_int_def conn_defs example_defs Let_def)
  have "fst (get_all_quotes None quotes_store1) =
      Success 200 (map (\<lambda>r. \<lparr>row = r, is_favorite = False\<rparr>)
                     (quotes (committed quotes_store1)))"
    using no_user_id_not_favorite [where s = quotes_store1 and quote_id = 1
      and quote_update = "\<lparr>text_up = Absent, author_up = Val ''Plato'', source_up = Absent,
            category_up = Absent\<rparr>"] stored(2)
    by blast
  then have "fst (get_all_quotes None quotes_store1) =
      Success 200 [\<lparr>row = quote1, is_favorite = False\<rparr>]"
    by (simp add: quotes_store1_def)
  with stored one upd show ?thesis by simp
qed



end
